theory Spec2Isabelle
  imports Main "HOL-Library.AList"
begin

section \<open>Python values\<close>

text \<open>
  The values that travel through \<^verbatim>\<open>chat_downloader/cli.py\<close>: \<^verbatim>\<open>None\<close>, booleans,
  integers, strings, lists (the \<^verbatim>\<open>choices\<close> of an option) and references to callables
  (the \<^verbatim>\<open>type\<close> of an option, named by the callable).
\<close>

datatype pyval =
    PNone
  | PBool bool
  | PInt int
  | PStr string
  | PList "pyval list"
  | PFun string

text \<open>Python's \<^verbatim>\<open>bool(x)\<close>.\<close>

fun truthy :: "pyval \<Rightarrow> bool" where
  "truthy PNone = False"
| "truthy (PBool b) = b"
| "truthy (PInt i) = (i \<noteq> 0)"
| "truthy (PStr s) = (s \<noteq> [])"
| "truthy (PList xs) = (xs \<noteq> [])"
| "truthy (PFun f) = True"

text \<open>A \<^verbatim>\<open>dict\<close> with string keys, in insertion order; \<^verbatim>\<open>d[k] = v\<close> is \<open>AList.update\<close>.\<close>

type_synonym 'v dict = "(string \<times> 'v) list"

text \<open>\<^verbatim>\<open>d.get(k)\<close>: the value, or \<^verbatim>\<open>None\<close> for a missing key.\<close>

definition dict_get :: "pyval dict \<Rightarrow> string \<Rightarrow> pyval" where
  "dict_get d k = (case map_of d k of Some v \<Rightarrow> v | None \<Rightarrow> PNone)"

section \<open>Parameter introspection: \<^verbatim>\<open>get_info\<close>\<close>

text \<open>
  One entry of \<^verbatim>\<open>doc_parse(function.__doc__).params\<close>: the documented name and its
  description.
\<close>

record doc_param =
  arg_name :: string
  description :: string

text \<open>
  A callable as \<^verbatim>\<open>get_info\<close> sees it: its signature (every parameter with its declared
  default, if it has one) and the parameter entries of its parsed docstring.
\<close>

record py_function =
  parameters :: "(string \<times> pyval option) list"
  doc_params :: "doc_param list"

text \<open>
  Modelled from the spec: \<^verbatim>\<open>get_default_args\<close> of \<^verbatim>\<open>chat_downloader/utils\<close> is not among
  the sources. The specification has the introspector extract "the declared parameter
  names, their default values": the result maps each parameter that declares a default to
  that default, and has no key for a parameter without one.
\<close>

fun get_default_args_of :: "(string \<times> pyval option) list \<Rightarrow> pyval dict" where
  "get_default_args_of [] = []"
| "get_default_args_of ((k, None) # ps) = get_default_args_of ps"
| "get_default_args_of ((k, Some v) # ps) = (k, v) # get_default_args_of ps"

definition get_default_args :: "py_function \<Rightarrow> pyval dict" where
  "get_default_args function = get_default_args_of (parameters function)"

text \<open>
  \<^verbatim>\<open>
  def get_info(function):
      info = {}
      docstring = doc_parse(function.__doc__)
      args = get_default_args(function)
      for param in docstring.params:
          info[param.arg_name] = {
              'help': param.description,
              'default': args.get(param.arg_name)
          }
      return info
  \<close>
  The loop runs over the documentation entries; \<open>get_info_loop\<close> is that loop with
  \<^verbatim>\<open>info\<close> as its accumulator.
\<close>

fun get_info_loop :: "pyval dict \<Rightarrow> doc_param list \<Rightarrow> pyval dict dict \<Rightarrow> pyval dict dict" where
  "get_info_loop args [] info = info"
| "get_info_loop args (param # params) info =
     get_info_loop args params
       (AList.update (arg_name param)
          [(''help'', PStr (description param)),
           (''default'', dict_get args (arg_name param))]
          info)"

definition get_info :: "py_function \<Rightarrow> pyval dict dict" where
  "get_info function = get_info_loop (get_default_args function) (doc_params function) []"

section \<open>Exceptions\<close>

text \<open>
  The exception classes \<^verbatim>\<open>main\<close> names: the eleven of \<^verbatim>\<open>chat_downloader/errors\<close>, the two
  of \<^verbatim>\<open>requests.exceptions\<close>, and \<^verbatim>\<open>KeyboardInterrupt\<close>. \<open>Other name\<close> is any class
  \<^verbatim>\<open>main\<close> does not name (\<^verbatim>\<open>KeyError\<close>, \<^verbatim>\<open>OSError\<close>, ...). An exception is its class and
  the text \<^verbatim>\<open>str(e)\<close>.
\<close>

datatype exn_class =
    URLNotProvided
  | SiteNotSupported
  | LoginRequired
  | VideoUnavailable
  | NoChatReplay
  | VideoUnplayable
  | InvalidParameter
  | InvalidURL
  | RetriesExceeded
  | NoContinuation
  | TimeoutException
  | ConnectionError
  | RequestException
  | KeyboardInterrupt
  | Other string

datatype exn = Exn (exn_class: exn_class) (exn_str: string)

text \<open>
  \<^verbatim>\<open>isinstance(e, c)\<close> on these classes. \<^verbatim>\<open>ConnectionError\<close> is a subclass of
  \<^verbatim>\<open>RequestException\<close> in \<^verbatim>\<open>requests\<close>; \<open>RequestException\<close> as the class of a raised
  exception stands for every other request-layer class.

  Modelled from the spec: \<^verbatim>\<open>chat_downloader/errors\<close> is not among the sources. The
  specification's taxonomy lists its eleven kinds as separate rows, so none of them is
  taken to be a subclass of another.
\<close>

definition isinstance :: "exn_class \<Rightarrow> exn_class \<Rightarrow> bool" where
  "isinstance c c' = (c = c' \<or> (c = ConnectionError \<and> c' = RequestException))"

section \<open>Flag synthesis: \<^verbatim>\<open>add_param\<close>\<close>

text \<open>\<^verbatim>\<open>d.pop(k, dflt)\<close>: the value and the dictionary without the key.\<close>

definition dict_pop :: "pyval dict \<Rightarrow> string \<Rightarrow> pyval \<Rightarrow> pyval \<times> pyval dict" where
  "dict_pop d k dflt =
     (case map_of d k of Some v \<Rightarrow> (v, AList.delete k d) | None \<Rightarrow> (dflt, d))"

text \<open>\<^verbatim>\<open>str(b)\<close> of a boolean, \<^verbatim>\<open>s.lower()\<close> on ASCII, and \<^verbatim>\<open>s.lstrip('-')\<close>.\<close>

definition str_bool :: "bool \<Rightarrow> string" where
  "str_bool b = (if b then ''True'' else ''False'')"

definition char_lower :: "char \<Rightarrow> char" where
  "char_lower c =
     (case map_of (zip ''ABCDEFGHIJKLMNOPQRSTUVWXYZ'' ''abcdefghijklmnopqrstuvwxyz'') c of
        Some l \<Rightarrow> l | None \<Rightarrow> c)"

definition lower :: "string \<Rightarrow> string" where
  "lower s = map char_lower s"

definition lstrip_dash :: "string \<Rightarrow> string" where
  "lstrip_dash s = dropWhile (\<lambda>c. c = CHR ''-'') s"

text \<open>
  One \<^verbatim>\<open>add_argument(*keys, **kwargs)\<close> call as the parser keeps it: the option strings
  and the keyword arguments. A parser (with its argument groups, which only organise the
  help text and the exclusivity check) is the list of its arguments in registration order.
\<close>

record argument =
  option_strings :: "string list"
  arg_kwargs :: "pyval dict"

subsection \<open>Registering an argument\<close>

text \<open>
  The destination that the standard library's \<^verbatim>\<open>argparse\<close> infers for an optional
  argument: its first long option string, else its first option string, without the
  leading dashes and with \<^verbatim>\<open>-\<close> turned into \<^verbatim>\<open>_\<close>.
\<close>

definition dest_of :: "string list \<Rightarrow> string" where
  "dest_of keys =
     (let long = filter (\<lambda>k. take 2 k = ''--'') keys;
          k = (case long of l # _ \<Rightarrow> l | [] \<Rightarrow> (case keys of k # _ \<Rightarrow> k | [] \<Rightarrow> []))
      in map (\<lambda>c. if c = CHR ''-'' then CHR ''_'' else c) (lstrip_dash k))"

definition starts_with_dash :: "string \<Rightarrow> bool" where
  "starts_with_dash k = (case k of [] \<Rightarrow> False | c # _ \<Rightarrow> c = CHR ''-'')"

text \<open>
  The loop of \<^verbatim>\<open>_get_optional_kwargs\<close> over the option strings: reading the first character
  of an empty string raises \<^verbatim>\<open>IndexError\<close>, and an option string that does not start with
  \<^verbatim>\<open>-\<close> raises \<^verbatim>\<open>ValueError\<close>.
\<close>

fun option_strings_error :: "string list \<Rightarrow> exn option" where
  "option_strings_error [] = None"
| "option_strings_error (k # ks) =
     (if k = [] then Some (Exn (Other ''IndexError'') ''string index out of range'')
      else if \<not> starts_with_dash k
      then Some (Exn (Other ''ValueError'') ''invalid option string: must start with a character -'')
      else option_strings_error ks)"

text \<open>
  The actions of the parser's registry, each with the keywords that the constructor of its
  class takes besides \<^verbatim>\<open>option_strings\<close> and \<^verbatim>\<open>dest\<close>. \<^verbatim>\<open>store_true\<close> and \<^verbatim>\<open>store_false\<close> take
  neither \<^verbatim>\<open>type\<close> nor \<^verbatim>\<open>choices\<close> nor \<^verbatim>\<open>nargs\<close>.
\<close>

definition argparse_actions :: "(string \<times> string list) list" where
  "argparse_actions =
     [(''store'', [''nargs'', ''const'', ''default'', ''type'', ''choices'', ''required'',
                   ''help'', ''metavar'']),
      (''store_const'', [''const'', ''default'', ''required'', ''help'', ''metavar'']),
      (''store_true'', [''default'', ''required'', ''help'']),
      (''store_false'', [''default'', ''required'', ''help'']),
      (''append'', [''nargs'', ''const'', ''default'', ''type'', ''choices'', ''required'',
                    ''help'', ''metavar'']),
      (''append_const'', [''const'', ''default'', ''required'', ''help'', ''metavar'']),
      (''count'', [''default'', ''required'', ''help'']),
      (''help'', [''default'', ''help'']),
      (''version'', [''version'', ''default'', ''help'']),
      (''parsers'', [''prog'', ''parser_class'', ''required'', ''help'', ''metavar'']),
      (''extend'', [''nargs'', ''const'', ''default'', ''type'', ''choices'', ''required'',
                    ''help'', ''metavar''])]"

text \<open>
  Looking the action up and calling its class with the keywords: \<^verbatim>\<open>action\<close> absent or
  \<^verbatim>\<open>None\<close> is \<^verbatim>\<open>store\<close>; a value that is neither in the registry nor callable raises
  \<^verbatim>\<open>ValueError\<close> (a list, which cannot be looked up, \<^verbatim>\<open>TypeError\<close>); a keyword that the
  constructor does not take raises \<^verbatim>\<open>TypeError\<close>. A callable given as the action is taken
  to accept its keywords.
\<close>

definition construct_error :: "pyval dict \<Rightarrow> exn option" where
  "construct_error kwargs =
     (let given = filter (\<lambda>k. k \<noteq> ''action'' \<and> k \<noteq> ''dest'') (map fst kwargs);
          unknown = Some (Exn (Other ''ValueError'') ''unknown action'');
          construct = (\<lambda>a. case map_of argparse_actions a of
             None \<Rightarrow> unknown
           | Some taken \<Rightarrow>
               if filter (\<lambda>k. k \<notin> set taken) given \<noteq> []
               then Some (Exn (Other ''TypeError'')
                            ''__init__() got an unexpected keyword argument'')
               else None)
      in case dict_get kwargs ''action'' of
           PNone \<Rightarrow> construct ''store''
         | PStr a \<Rightarrow> construct a
         | PFun f \<Rightarrow> None
         | PList xs \<Rightarrow> Some (Exn (Other ''TypeError'') ''unhashable type'')
         | PBool b \<Rightarrow> unknown
         | PInt i \<Rightarrow> unknown)"

text \<open>
  A positional argument is constructed with \<^verbatim>\<open>required=True\<close>, unless its \<^verbatim>\<open>nargs\<close> is
  \<^verbatim>\<open>'?'\<close>, or \<^verbatim>\<open>'*'\<close> with a default.
\<close>

definition positional_kwargs :: "pyval dict \<Rightarrow> pyval dict" where
  "positional_kwargs kwargs =
     (let nargs = dict_get kwargs ''nargs''
      in if (nargs \<noteq> PStr ''?'' \<and> nargs \<noteq> PStr ''*'') \<or>
            (nargs = PStr ''*'' \<and> map_of kwargs ''default'' = None)
         then kwargs @ [(''required'', PBool True)] else kwargs)"

text \<open>
  \<^verbatim>\<open>add_argument\<close> of the standard library, with the checks that a registration can fail, in
  the library's order.
  \<^item> Without option strings, or with a single name that does not start with \<^verbatim>\<open>-\<close>, the
    argument is positional: the destination must be given without a name (\<^verbatim>\<open>TypeError\<close>
    otherwise) and must not be given with one (\<^verbatim>\<open>ValueError\<close>), and \<^verbatim>\<open>required\<close> is refused
    (\<^verbatim>\<open>TypeError\<close>).
  \<^item> Otherwise the argument is optional: every option string must start with \<^verbatim>\<open>-\<close>, and a
    destination must be given or be inferable (\<^verbatim>\<open>ValueError\<close>).
  \<^item> The action must be known, and its constructor must take the keywords.
  \<^item> No option string may belong to an argument that the parser already has
    (\<^verbatim>\<open>ArgumentError\<close>).

  What the library checks about the values of \<^verbatim>\<open>nargs\<close>, \<^verbatim>\<open>const\<close>, \<^verbatim>\<open>metavar\<close>, \<^verbatim>\<open>required\<close>
  and \<^verbatim>\<open>type\<close>, and what \<^verbatim>\<open>dest\<close> does to the namespace, is not modelled; \<^verbatim>\<open>main\<close> passes none
  of these keywords. Nor is the \<^verbatim>\<open>-h\<close>/\<^verbatim>\<open>--help\<close> option that the parser's constructor
  registers; no option string of \<^verbatim>\<open>main\<close> clashes with it.
\<close>

definition add_argument :: "argument list \<Rightarrow> string list \<Rightarrow> pyval dict \<Rightarrow> exn + argument list" where
  "add_argument grp keys kwargs =
     (let stored = Inr (grp @ [\<lparr>option_strings = keys, arg_kwargs = kwargs\<rparr>]);
          has_dest = (map_of kwargs ''dest'' \<noteq> None)
      in if keys = [[]] then Inl (Exn (Other ''IndexError'') ''string index out of range'')
         else if keys = [] \<or> (length keys = 1 \<and> \<not> list_ex starts_with_dash keys)
         then
           (if keys \<noteq> [] \<and> has_dest
            then Inl (Exn (Other ''ValueError'') ''dest supplied twice for positional argument'')
            else if keys = [] \<and> \<not> has_dest
            then Inl (Exn (Other ''TypeError'')
                        ''_get_positional_kwargs() missing 1 required positional argument'')
            else if map_of kwargs ''required'' \<noteq> None
            then Inl (Exn (Other ''TypeError'')
                        ''required is an invalid argument for positionals'')
            else case construct_error (positional_kwargs kwargs) of
                   Some e \<Rightarrow> Inl e
                 | None \<Rightarrow> stored)
         else
           (case option_strings_error keys of
              Some e \<Rightarrow> Inl e
            | None \<Rightarrow>
                if dict_get kwargs ''dest'' = PNone \<and> dest_of keys = []
                then Inl (Exn (Other ''ValueError'') ''dest= is required for options like this'')
                else case construct_error kwargs of
                       Some e \<Rightarrow> Inl e
                     | None \<Rightarrow>
                         if filter (\<lambda>k. k \<in> set (concat (map option_strings grp))) keys \<noteq> []
                         then Inl (Exn (Other ''ArgumentError'') ''conflicting option string'')
                         else stored))"

text \<open>
  \<^verbatim>\<open>
  def add_param(param_type, group, *keys, **kwargs):
      is_boolean_flag = kwargs.pop('is_boolean_flag', None)
      if is_boolean_flag:
          # If True by default, set action to store_false
          # If False by default, set action to store_false
          default = kwargs.pop('default', None)
          kwargs['action'] = 'store_{}'.format(str(not bool(default)).lower())
      info = get_chat_info if param_type == 'chat' else get_init_info
      key = keys[0].lstrip('-')
      group.add_argument(*keys, **info[key], **kwargs)
  \<close>
  \<^verbatim>\<open>keys[0]\<close> raises \<^verbatim>\<open>IndexError\<close> without keys, \<^verbatim>\<open>info[key]\<close> raises \<^verbatim>\<open>KeyError\<close> for a
  name that has no entry, the call raises \<^verbatim>\<open>TypeError\<close> when \<^verbatim>\<open>info[key]\<close> and
  \<^verbatim>\<open>kwargs\<close> share a keyword, and \<^verbatim>\<open>add_argument\<close> raises as above.
\<close>

definition boolean_flag_kwargs :: "pyval dict \<Rightarrow> pyval dict" where
  "boolean_flag_kwargs kwargs =
     (let (dflt, kwargs') = dict_pop kwargs ''default'' PNone
      in AList.update ''action''
           (PStr (''store_'' @ lower (str_bool (\<not> truthy dflt)))) kwargs')"

definition add_param ::
  "pyval dict dict \<Rightarrow> pyval dict dict \<Rightarrow> string \<Rightarrow> argument list \<Rightarrow> string list \<Rightarrow> pyval dict
     \<Rightarrow> exn + argument list" where
  "add_param get_chat_info get_init_info param_type grp keys kwargs =
     (let (is_boolean_flag, kwargs1) = dict_pop kwargs ''is_boolean_flag'' PNone;
          kwargs2 = (if truthy is_boolean_flag then boolean_flag_kwargs kwargs1 else kwargs1);
          info = (if param_type = ''chat'' then get_chat_info else get_init_info)
      in case keys of
           [] \<Rightarrow> Inl (Exn (Other ''IndexError'') ''tuple index out of range'')
         | key0 # _ \<Rightarrow>
             (let key = lstrip_dash key0
              in case map_of info key of
                   None \<Rightarrow> Inl (Exn (Other ''KeyError'') key)
                 | Some entry \<Rightarrow>
                     if filter (\<lambda>k. k \<in> set (map fst entry)) (map fst kwargs2) \<noteq> []
                     then Inl (Exn (Other ''TypeError'') ''got multiple values for keyword argument'')
                     else add_argument grp keys (entry @ kwargs2)))"

definition add_chat_param ::
  "pyval dict dict \<Rightarrow> pyval dict dict \<Rightarrow> argument list \<Rightarrow> string list \<Rightarrow> pyval dict
     \<Rightarrow> exn + argument list" where
  "add_chat_param get_chat_info get_init_info grp keys kwargs =
     add_param get_chat_info get_init_info ''chat'' grp keys kwargs"

definition add_init_param ::
  "pyval dict dict \<Rightarrow> pyval dict dict \<Rightarrow> argument list \<Rightarrow> string list \<Rightarrow> pyval dict
     \<Rightarrow> exn + argument list" where
  "add_init_param get_chat_info get_init_info grp keys kwargs =
     add_param get_chat_info get_init_info ''init'' grp keys kwargs"

subsection \<open>What the parser does with an argument\<close>

text \<open>
  The behaviour of the standard library's \<^verbatim>\<open>argparse\<close> that \<^verbatim>\<open>main\<close> relies on when it
  parses. The action
  \<^verbatim>\<open>store_true\<close> has the constant \<^verbatim>\<open>True\<close> and, unless \<^verbatim>\<open>default=\<close> is passed, the default
  \<^verbatim>\<open>False\<close>; \<^verbatim>\<open>store_false\<close> has the constant \<^verbatim>\<open>False\<close> and the default \<^verbatim>\<open>True\<close>; every
  other action here stores the value given on the command line and defaults to \<^verbatim>\<open>None\<close>.
\<close>

definition action_of :: "argument \<Rightarrow> pyval" where
  "action_of a = (case map_of (arg_kwargs a) ''action'' of Some v \<Rightarrow> v | None \<Rightarrow> PStr ''store'')"

definition arg_default :: "argument \<Rightarrow> pyval" where
  "arg_default a =
     (case map_of (arg_kwargs a) ''default'' of
        Some d \<Rightarrow> d
      | None \<Rightarrow>
          if action_of a = PStr ''store_true'' then PBool False
          else if action_of a = PStr ''store_false'' then PBool True
          else PNone)"

text \<open>
  A command line that the parser accepts, as the parser reads it: for each destination
  that occurs, the value given with it (converted by the option's \<^verbatim>\<open>type\<close>; of no
  account for a flag that takes no value).
\<close>

type_synonym cmdline = "pyval dict"

definition parsed_value :: "argument \<Rightarrow> cmdline \<Rightarrow> pyval" where
  "parsed_value a cl =
     (case map_of cl (dest_of (option_strings a)) of
        None \<Rightarrow> arg_default a
      | Some v \<Rightarrow>
          if action_of a = PStr ''store_true'' then PBool True
          else if action_of a = PStr ''store_false'' then PBool False
          else v)"

text \<open>\<^verbatim>\<open>getattr(args, k, None)\<close> on the namespace that \<^verbatim>\<open>parse_args\<close> returns.\<close>

definition namespace_attr :: "argument list \<Rightarrow> cmdline \<Rightarrow> string \<Rightarrow> pyval" where
  "namespace_attr parser cl k =
     (case find (\<lambda>a. dest_of (option_strings a) = k) parser of
        None \<Rightarrow> PNone
      | Some a \<Rightarrow> parsed_value a cl)"

section \<open>The command-line surface of \<^verbatim>\<open>main\<close>\<close>

text \<open>
  The registrations of \<^verbatim>\<open>main\<close>, in source order: \<open>Direct\<close> is a call of
  \<^verbatim>\<open>add_argument\<close> on the parser or one of its groups, \<open>Chat\<close> a call of
  \<^verbatim>\<open>add_chat_param\<close>, \<open>Init\<close> a call of \<^verbatim>\<open>add_init_param\<close>.
\<close>

datatype registration =
    Direct "string list" "pyval dict"
  | Chat "string list" "pyval dict"
  | Init "string list" "pyval dict"

fun register ::
  "pyval dict dict \<Rightarrow> pyval dict dict \<Rightarrow> argument list \<Rightarrow> registration \<Rightarrow> exn + argument list" where
  "register get_chat_info get_init_info parser (Direct keys kwargs) =
     add_argument parser keys kwargs"
| "register get_chat_info get_init_info parser (Chat keys kwargs) =
     add_chat_param get_chat_info get_init_info parser keys kwargs"
| "register get_chat_info get_init_info parser (Init keys kwargs) =
     add_init_param get_chat_info get_init_info parser keys kwargs"

fun register_all ::
  "pyval dict dict \<Rightarrow> pyval dict dict \<Rightarrow> argument list \<Rightarrow> registration list
     \<Rightarrow> exn + argument list" where
  "register_all get_chat_info get_init_info parser [] = Inr parser"
| "register_all get_chat_info get_init_info parser (r # rs) =
     (case register get_chat_info get_init_info parser r of
        Inl e \<Rightarrow> Inl e
      | Inr parser' \<Rightarrow> register_all get_chat_info get_init_info parser' rs)"

definition url_help :: string where
  "url_help = ''The URL of the livestream, video, clip or past broadcast''"

definition output_help :: string where
  "output_help = ''Path of the output file, default is None (i.e. print to standard output)''"

definition sort_keys_help :: string where
  "sort_keys_help = ''Sort keys when outputting to a file''"

definition indent_help :: string where
  "indent_help = ''Number of spaces to indent JSON objects by. If nonnumerical input is provided, this will be used to indent the objects.''"

definition overwrite_help :: string where
  "overwrite_help = ''Overwrite output file if it exists. Otherwise, append to the end of the file.''"

definition testing_help :: string where
  "testing_help = ''Enable testing mode. This is equivalent to setting logging to debug and enabling pause_on_debug''"

definition verbose_help :: string where
  "verbose_help = ''Print various debugging information. This is equivalent to setting logging to debug''"

definition quiet_help :: string where
  "quiet_help = ''Activate quiet mode (hide all output)''"

definition logging_choices :: "string list" where
  "logging_choices = [''none'', ''debug'', ''info'', ''warning'', ''error'', ''critical'']"

definition main_registrations :: "string \<Rightarrow> registration list" where
  "main_registrations version =
     [Direct [''--version''] [(''action'', PStr ''version''), (''version'', PStr version)],
      Direct [''url''] [(''help'', PStr url_help)],
      Chat [''--start_time'', ''-s''] [],
      Chat [''--end_time'', ''-e''] [],
      Chat [''--message_types''] [(''type'', PFun ''splitter'')],
      Chat [''--message_groups''] [(''type'', PFun ''splitter'')],
      Chat [''--max_attempts''] [(''type'', PFun ''int'')],
      Chat [''--retry_timeout''] [(''type'', PFun ''float'')],
      Chat [''--max_messages''] [(''type'', PFun ''int'')],
      Chat [''--inactivity_timeout''] [(''type'', PFun ''float'')],
      Chat [''--timeout''] [(''type'', PFun ''float'')],
      Chat [''--format''] [],
      Chat [''--format_file''] [],
      Chat [''--chat_type''] [(''choices'', PList [PStr ''live'', PStr ''top''])],
      Chat [''--message_receive_timeout''] [(''type'', PFun ''float'')],
      Chat [''--buffer_size''] [(''type'', PFun ''int'')],
      Direct [''--output'', ''-o''] [(''help'', PStr output_help), (''default'', PNone)],
      Direct [''--sort_keys''] [(''help'', PStr sort_keys_help), (''action'', PStr ''store_false'')],
      Direct [''--indent'']
        [(''type'', PFun ''try_parse_int''), (''help'', PStr indent_help), (''default'', PInt 4)],
      Direct [''--overwrite''] [(''help'', PStr overwrite_help), (''action'', PStr ''store_true'')],
      Chat [''--pause_on_debug''] [(''is_boolean_flag'', PBool True)],
      Chat [''--exit_on_debug''] [(''is_boolean_flag'', PBool True)],
      Chat [''--logging''] [(''choices'', PList (map PStr logging_choices))],
      Direct [''--testing''] [(''help'', PStr testing_help), (''action'', PStr ''store_true'')],
      Direct [''--verbose'', ''-v''] [(''help'', PStr verbose_help), (''action'', PStr ''store_true'')],
      Direct [''--quiet'', ''-q''] [(''help'', PStr quiet_help), (''action'', PStr ''store_true'')],
      Init [''--cookies'', ''-c''] [],
      Init [''--proxy'', ''-p''] []]"

text \<open>
  The namespace \<^verbatim>\<open>args\<close>. The attributes that \<^verbatim>\<open>main\<close> reads or writes by name are
  fields; \<open>others\<close> reads every other attribute the way \<^verbatim>\<open>getattr(args, k, None)\<close> does.
\<close>

record args =
  testing :: pyval
  verbose :: pyval
  quiet :: pyval
  logging :: pyval
  pause_on_debug :: pyval
  "output" :: pyval
  indent :: pyval
  sort_keys :: pyval
  overwrite :: pyval
  others :: "string \<Rightarrow> pyval"

definition parse_args :: "argument list \<Rightarrow> cmdline \<Rightarrow> args" where
  "parse_args parser cl =
     \<lparr>testing = namespace_attr parser cl ''testing'',
      verbose = namespace_attr parser cl ''verbose'',
      quiet = namespace_attr parser cl ''quiet'',
      logging = namespace_attr parser cl ''logging'',
      pause_on_debug = namespace_attr parser cl ''pause_on_debug'',
      output = namespace_attr parser cl ''output'',
      indent = namespace_attr parser cl ''indent'',
      sort_keys = namespace_attr parser cl ''sort_keys'',
      overwrite = namespace_attr parser cl ''overwrite'',
      others = namespace_attr parser cl\<rparr>"

definition getattr_args :: "args \<Rightarrow> string \<Rightarrow> pyval" where
  "getattr_args a k =
     (if k = ''testing'' then testing a
      else if k = ''verbose'' then verbose a
      else if k = ''quiet'' then quiet a
      else if k = ''logging'' then logging a
      else if k = ''pause_on_debug'' then pause_on_debug a
      else if k = ''output'' then output a
      else if k = ''indent'' then indent a
      else if k = ''sort_keys'' then sort_keys a
      else if k = ''overwrite'' then overwrite a
      else others a k)"

section \<open>Mode resolution\<close>

text \<open>
  The process-wide logger: whether it is disabled, and its level.

  Modelled from the spec: \<^verbatim>\<open>set_log_level\<close> and \<^verbatim>\<open>get_logger\<close> of \<^verbatim>\<open>chat_downloader/utils\<close>
  are not among the sources. The specification describes logging as a "process-wide
  enable/disable and level threshold": \<open>set_log_level\<close> sets the threshold and leaves the
  switch alone.
\<close>

record logger =
  disabled :: bool
  level :: pyval

definition set_log_level :: "pyval \<Rightarrow> logger \<Rightarrow> logger" where
  "set_log_level l lg = lg\<lparr>level := l\<rparr>"

text \<open>
  \<^verbatim>\<open>
  if args.testing:
      args.logging = 'debug'
      args.pause_on_debug = True
  if args.verbose:
      args.logging = 'debug'
  if args.quiet or args.logging == 'none':
      get_logger().disabled = True
  else:
      set_log_level(args.logging)
  \<close>
\<close>

definition resolve_mode :: "args \<times> logger \<Rightarrow> args \<times> logger" where
  "resolve_mode s =
     (let (a0, lg) = s;
          a1 = (if truthy (testing a0)
                then a0\<lparr>logging := PStr ''debug'', pause_on_debug := PBool True\<rparr> else a0);
          a2 = (if truthy (verbose a1) then a1\<lparr>logging := PStr ''debug''\<rparr> else a1)
      in if truthy (quiet a2) \<or> logging a2 = PStr ''none''
         then (a2, lg\<lparr>disabled := True\<rparr>)
         else (a2, set_log_level (logging a2) lg))"

section \<open>Retrieval and dispatch\<close>

text \<open>
  What \<^verbatim>\<open>main\<close> does to the outside, in order: calls of \<^verbatim>\<open>log(level, message)\<close>, the next
  message taken from the chat, \<^verbatim>\<open>safe_print\<close> on the console, and the calls on the
  \<^verbatim>\<open>ContinuousWriter\<close> and the downloader. A log message is a string, an exception object, or
  a template with the arguments of its \<^verbatim>\<open>format\<close> call.
\<close>

datatype fmtarg = FStr string | FExn exn | FDict "pyval dict" | FChatDict

datatype logmsg = Text string | Obj exn | Format string "fmtarg list"

datatype 'm event =
    Log string logmsg
  | Next 'm
  | Print string
  | SinkOpen pyval "pyval dict"
  | SinkWrite 'm bool
  | SinkClose
  | DownloaderClose

text \<open>
  A chat session in one run: its title and liveness flag, its \<^verbatim>\<open>format\<close> operation, the
  messages its iteration yields, and how the iteration ends (exhausted, or raising). A run
  that leaves the loop has taken finitely many messages, so they are a list.
\<close>

record 'm chat =
  chat_title :: string
  chat_is_live :: bool
  chat_format :: "'m \<Rightarrow> string"
  chat_messages :: "'m list"
  chat_end :: "exn option"

text \<open>
  The collaborators in one run: the interpreter's and the program's version strings, the
  constructor \<^verbatim>\<open>ChatDownloader(**init_params)\<close>, \<^verbatim>\<open>downloader.get_chat(**chat_params)\<close> and the
  constructor \<^verbatim>\<open>ContinuousWriter(args.output, **output_args)\<close>, each of which returns or
  raises. Acquisition, the opening of the writer and the iteration are where a run fails or
  is interrupted (the specification names the iteration as the only suspension point of the
  loop); \<^verbatim>\<open>chat.format\<close>, \<^verbatim>\<open>safe_print\<close>, \<^verbatim>\<open>log\<close> and the \<^verbatim>\<open>write\<close> and \<^verbatim>\<open>close\<close> calls are
  taken to return.
\<close>

record 'm engine =
  sys_version :: string
  program_version :: string
  new_downloader :: "pyval dict \<Rightarrow> exn option"
  get_chat :: "pyval dict \<Rightarrow> exn + 'm chat"
  open_writer :: "pyval \<Rightarrow> pyval dict \<Rightarrow> exn option"

datatype outcome = Returned | Propagated exn

definition chat_information_template :: string where
  "chat_information_template = ''Chat information: {}''"

definition retrieving_template :: string where
  \<open>retrieving_template = ''Retrieving chat for "{}".''\<close>

definition finished_template :: string where
  "finished_template = ''Finished retrieving chat{}.''"

definition connection_template :: string where
  "connection_template =
     ''Unable to establish a connection. Please check your internet connection. {}''"

text \<open>
  \<^verbatim>\<open>
  def print_formatted(item):
      if not args.quiet:
          formatted = chat.format(item)
          safe_print(formatted)

  def write_to_file(item):
      print_formatted(item)
      output_file.write(item, flush=True)
  \<close>
\<close>

definition print_formatted :: "args \<Rightarrow> 'm chat \<Rightarrow> 'm \<Rightarrow> 'm event list" where
  "print_formatted a chat item =
     (if \<not> truthy (quiet a) then [Print (chat_format chat item)] else [])"

definition write_to_file :: "args \<Rightarrow> 'm chat \<Rightarrow> 'm \<Rightarrow> 'm event list" where
  "write_to_file a chat item = print_formatted a chat item @ [SinkWrite item True]"

text \<open>\<^verbatim>\<open>for message in chat: callback(message)\<close>, over the messages the iteration yields.\<close>

fun for_messages :: "('m \<Rightarrow> 'm event list) \<Rightarrow> 'm list \<Rightarrow> 'm event list" where
  "for_messages callback [] = []"
| "for_messages callback (message # rest) =
     Next message # callback message @ for_messages callback rest"

text \<open>
  The loop and what follows it in the \<^verbatim>\<open>try\<close> block: the exception the iteration raised,
  if any, and the events.
\<close>

definition consume :: "'m chat \<Rightarrow> ('m \<Rightarrow> 'm event list) \<Rightarrow> exn option \<times> 'm event list" where
  "consume chat callback =
     (case chat_end chat of
        Some e \<Rightarrow> (Some e, for_messages callback (chat_messages chat))
      | None \<Rightarrow>
          (None, for_messages callback (chat_messages chat) @
             [Log ''info'' (Format finished_template
                [FStr (if chat_is_live chat then [] else '' replay'')])]))"

definition output_args :: "args \<Rightarrow> pyval dict" where
  "output_args a = map (\<lambda>k. (k, getattr_args a k)) [''indent'', ''sort_keys'', ''overwrite'']"

text \<open>
  The body of the \<^verbatim>\<open>try\<close> block (lines 226 to 255): the exception it raised, if any,
  whether \<^verbatim>\<open>output_file\<close> was bound to a writer, and the events.
\<close>

definition try_body ::
  "args \<Rightarrow> pyval dict \<Rightarrow> 'm engine \<Rightarrow> exn option \<times> bool \<times> 'm event list" where
  "try_body a chat_params eng =
     (case get_chat eng chat_params of
        Inl e \<Rightarrow> (Some e, False, [])
      | Inr chat \<Rightarrow>
          (let started =
                 [Log ''debug'' (Format chat_information_template [FChatDict]),
                  Log ''info'' (Format retrieving_template [FStr (chat_title chat)])]
           in if truthy (output a)
              then (case open_writer eng (output a) (output_args a) of
                      Some e \<Rightarrow> (Some e, False, started)
                    | None \<Rightarrow>
                        (let (raised, evs) = consume chat (write_to_file a chat)
                         in (raised, True,
                             started @ [SinkOpen (output a) (output_args a)] @ evs)))
              else (let (raised, evs) = consume chat (print_formatted a chat)
                    in (raised, False, started @ evs))))"

text \<open>
  The \<^verbatim>\<open>except\<close> clauses in source order: the classes each one names and what its body
  logs. The first clause with a class the exception is an instance of handles it; an
  exception that no clause matches is not handled.
\<close>

definition except_clauses :: "(exn_class list \<times> (exn \<Rightarrow> 'm event list)) list" where
  "except_clauses =
     [([URLNotProvided, SiteNotSupported, LoginRequired, VideoUnavailable, NoChatReplay,
        VideoUnplayable, InvalidParameter, InvalidURL, RetriesExceeded],
       \<lambda>e. [Log ''error'' (Obj e)]),
      ([NoContinuation], \<lambda>e. [Log ''info'' (Obj e)]),
      ([ConnectionError], \<lambda>e. [Log ''error'' (Format connection_template [FExn e])]),
      ([RequestException], \<lambda>e. [Log ''error'' (Obj e)]),
      ([TimeoutException], \<lambda>e. [Log ''info'' (Obj e)]),
      ([KeyboardInterrupt], \<lambda>e. [Log ''error'' (Text ''Keyboard Interrupt'')])]"

fun handle :: "(exn_class list \<times> (exn \<Rightarrow> 'm event list)) list \<Rightarrow> exn \<Rightarrow> 'm event list option" where
  "handle [] e = None"
| "handle ((classes, body) # clauses) e =
     (if list_ex (isinstance (exn_class e)) classes then Some (body e) else handle clauses e)"

text \<open>
  \<^verbatim>\<open>
  finally:
      downloader.close()
      if args.output and output_file:
          output_file.close()
  \<close>
  \<^verbatim>\<open>output_file\<close> is \<^verbatim>\<open>None\<close> until the writer's constructor has returned, and a writer
  object after that; the object counts as true.
\<close>

definition finally_block :: "args \<Rightarrow> bool \<Rightarrow> 'm event list" where
  "finally_block a output_file =
     DownloaderClose # (if truthy (output a) \<and> output_file then [SinkClose] else [])"

text \<open>The whole \<^verbatim>\<open>try\<close> statement (lines 224 to 291).\<close>

definition dispatch :: "args \<Rightarrow> pyval dict \<Rightarrow> 'm engine \<Rightarrow> outcome \<times> 'm event list" where
  "dispatch a chat_params eng =
     (let (raised, output_file, evs) = try_body a chat_params eng
      in case raised of
           None \<Rightarrow> (Returned, evs @ finally_block a output_file)
         | Some e \<Rightarrow>
             (case handle except_clauses e of
                Some logged \<Rightarrow> (Returned, evs @ logged @ finally_block a output_file)
              | None \<Rightarrow> (Propagated e, evs @ finally_block a output_file)))"

text \<open>
  \<^verbatim>\<open>main\<close>: the parser is built (an exception of a registration leaves \<^verbatim>\<open>main\<close>), the
  command line is read, the mode is resolved, the parameter dictionaries are collected, and
  the downloader is created and run. The result is how \<^verbatim>\<open>main\<close> ends, the logger, and the
  events.
\<close>

definition main ::
  "py_function \<Rightarrow> py_function \<Rightarrow> cmdline \<Rightarrow> logger \<Rightarrow> 'm engine
     \<Rightarrow> outcome \<times> logger \<times> 'm event list" where
  "main get_chat_function init_function cl lg eng =
     (let get_chat_info = get_info get_chat_function;
          get_init_info = get_info init_function
      in case register_all get_chat_info get_init_info []
                (main_registrations (program_version eng)) of
           Inl e \<Rightarrow> (Propagated e, lg, [])
         | Inr parser \<Rightarrow>
             (let (a, lg') = resolve_mode (parse_args parser cl, lg);
                  chat_params = map (\<lambda>k. (k, getattr_args a k)) (map fst get_chat_info);
                  init_params = map (\<lambda>k. (k, getattr_args a k)) (map fst get_init_info);
                  evs0 =
                    [Log ''debug'' (Format ''Python version: {}'' [FStr (sys_version eng)]),
                     Log ''debug'' (Format ''Program version: {}'' [FStr (program_version eng)]),
                     Log ''debug'' (Format ''Initialisation parameters: {}'' [FDict init_params])]
              in case new_downloader eng init_params of
                   Some e \<Rightarrow> (Propagated e, lg', evs0)
                 | None \<Rightarrow>
                     (let (oc, evs) = dispatch a chat_params eng
                      in (oc, lg', evs0 @ evs))))"

section \<open>Example inputs\<close>

text \<open>
  Concrete inputs on which the theorems below are exercised: a namespace with a given
  \<^verbatim>\<open>quiet\<close> and \<^verbatim>\<open>output\<close>, a replay of two messages that ends as given, and collaborators
  that open the session as given and never fail otherwise.
\<close>

definition example_args :: "pyval \<Rightarrow> pyval \<Rightarrow> args" where
  "example_args q out =
     \<lparr>testing = PBool False, verbose = PBool False, quiet = q, logging = PStr ''info'',
      pause_on_debug = PBool False, output = out, indent = PInt 4, sort_keys = PBool True,
      overwrite = PBool False, others = (\<lambda>k. PNone)\<rparr>"

definition example_chat :: "exn option \<Rightarrow> string chat" where
  "example_chat ending =
     \<lparr>chat_title = ''stream'', chat_is_live = False, chat_format = (\<lambda>m. ''> '' @ m),
      chat_messages = [''hello'', ''bye''], chat_end = ending\<rparr>"

definition example_engine :: "exn + string chat \<Rightarrow> string engine" where
  "example_engine session =
     \<lparr>sys_version = ''3.8.5'', program_version = ''0.0.1'', new_downloader = (\<lambda>ps. None),
      get_chat = (\<lambda>ps. session), open_writer = (\<lambda>path kw. None)\<rparr>"

text \<open>
  Signatures that document every option \<^verbatim>\<open>main\<close> registers through \<^verbatim>\<open>add_chat_param\<close> and
  \<^verbatim>\<open>add_init_param\<close>, standing in for \<^verbatim>\<open>ChatDownloader.get_chat\<close> and
  \<^verbatim>\<open>ChatDownloader.__init__\<close>, which are not among the sources.
\<close>

definition example_get_chat :: py_function where
  "example_get_chat =
     \<lparr>parameters =
        map (\<lambda>k. (k, Some PNone))
          [''url'', ''start_time'', ''end_time'', ''message_types'', ''message_groups'',
           ''max_attempts'', ''retry_timeout'', ''max_messages'', ''inactivity_timeout'',
           ''timeout'', ''format'', ''format_file'', ''chat_type'',
           ''message_receive_timeout'', ''buffer_size''] @
        [(''pause_on_debug'', Some (PBool False)), (''exit_on_debug'', Some (PBool False)),
         (''logging'', Some (PStr ''info''))],
      doc_params =
        map (\<lambda>k. \<lparr>arg_name = k, description = []\<rparr>)
          [''url'', ''start_time'', ''end_time'', ''message_types'', ''message_groups'',
           ''max_attempts'', ''retry_timeout'', ''max_messages'', ''inactivity_timeout'',
           ''timeout'', ''format'', ''format_file'', ''chat_type'',
           ''message_receive_timeout'', ''buffer_size'', ''pause_on_debug'',
           ''exit_on_debug'', ''logging'']\<rparr>"

definition example_init :: py_function where
  "example_init =
     \<lparr>parameters = [(''cookies'', Some PNone), (''proxy'', Some PNone)],
      doc_params = [\<lparr>arg_name = ''cookies'', description = []\<rparr>,
                    \<lparr>arg_name = ''proxy'', description = []\<rparr>]\<rparr>"

section \<open>Properties of the parameter introspector\<close>

lemma find_snoc:
  "find P (xs @ [x]) =
     (case find P xs of Some y \<Rightarrow> Some y | None \<Rightarrow> (if P x then Some x else None))"
  by (induction xs) auto

lemma find_Some_in: "find P xs = Some x \<Longrightarrow> x \<in> set xs \<and> P x"
  by (induction xs) (auto split: if_splits)

lemma in_keys: "(k, x) \<in> set ps \<Longrightarrow> k \<in> fst ` set ps"
  by force

text \<open>The loop adds the documented names to the keys, and keeps the keys distinct.\<close>

lemma get_info_loop_keys:
  "fst ` set (get_info_loop args ps info) = fst ` set info \<union> arg_name ` set ps"
  by (induction ps arbitrary: info) (auto simp: AList.dom_update)

lemma get_info_loop_distinct:
  "distinct (map fst info) \<Longrightarrow> distinct (map fst (get_info_loop args ps info))"
  by (induction ps arbitrary: info) (auto simp: AList.distinct_update)

text \<open>A key's entry comes from the last documentation entry with that name.\<close>

lemma get_info_loop_lookup:
  "map_of (get_info_loop args ps info) k =
     (case find (\<lambda>p. arg_name p = k) (rev ps) of
        Some p \<Rightarrow> Some [(''help'', PStr (description p)), (''default'', dict_get args k)]
      | None \<Rightarrow> map_of info k)"
proof (induction ps arbitrary: info)
  case Nil
  then show ?case by simp
next
  case (Cons p ps)
  show ?case
    by (simp add: Cons.IH AList.update_conv' find_snoc split: option.splits)
qed

lemma get_default_args_of_lookup:
  "distinct (map fst ps) \<Longrightarrow>
   map_of (get_default_args_of ps) k =
     (case map_of ps k of Some (Some v) \<Rightarrow> Some v | _ \<Rightarrow> None)"
proof (induction ps rule: get_default_args_of.induct)
  case 1
  then show ?case by simp
next
  case (2 k' ps)
  then show ?case
    by (auto split: option.splits simp: map_of_eq_None_iff dest: in_keys map_of_SomeD)
next
  case (3 k' v ps)
  then show ?case by (auto split: option.splits dest: in_keys map_of_SomeD)
qed

lemma get_info_distinct: "distinct (map fst (get_info f))"
  by (simp add: get_info_def get_info_loop_distinct)

lemma get_info_keys: "set (map fst (get_info f)) = arg_name ` set (doc_params f)"
  by (simp add: get_info_def get_info_loop_keys)

lemma get_info_length: "length (get_info f) = card (arg_name ` set (doc_params f))"
proof -
  have "length (get_info f) = length (map fst (get_info f))" by simp
  also have "\<dots> = card (set (map fst (get_info f)))"
    using get_info_distinct [of f] by (simp only: distinct_card)
  finally show ?thesis by (simp only: get_info_keys)
qed

lemma get_info_lookup:
  assumes "map_of (get_info f) k = Some entry"
  shows "\<exists>p\<in>set (doc_params f). arg_name p = k \<and>
           entry = [(''help'', PStr (description p)),
                    (''default'', dict_get (get_default_args f) k)]"
proof (cases "find (\<lambda>p. arg_name p = k) (rev (doc_params f))")
  case None
  with assms show ?thesis by (simp add: get_info_def get_info_loop_lookup)
next
  case (Some p)
  then have "p \<in> set (doc_params f) \<and> arg_name p = k"
    using find_Some_in [of "\<lambda>p. arg_name p = k" "rev (doc_params f)" p] by simp
  moreover from assms Some
  have "entry = [(''help'', PStr (description p)),
                 (''default'', dict_get (get_default_args f) k)]"
    by (simp add: get_info_def get_info_loop_lookup)
  ultimately show ?thesis by blast
qed

lemma declared_default:
  "distinct (map fst (parameters f)) \<Longrightarrow>
   dict_get (get_default_args f) k =
     (case map_of (parameters f) k of Some (Some v) \<Rightarrow> v | _ \<Rightarrow> PNone)"
  by (simp add: dict_get_def get_default_args_def get_default_args_of_lookup
           split: option.splits)

text \<open>
  Claim C2, as the code has it. \<^verbatim>\<open>get_info\<close> loops over the documentation entries, not over
  the signature. For a function whose parameter names are distinct, it returns exactly one
  entry for each distinct documented name; the default of an entry is the default the
  signature declares for that name, and \<^verbatim>\<open>None\<close> where it declares none; the help of an entry
  is the description of a documentation entry of that name; and a name without a
  documentation entry has no entry at all, whether or not it is a parameter.
\<close>

theorem get_info_entries:
  "distinct (map fst (parameters f)) \<Longrightarrow>
   length (get_info f) = card (arg_name ` set (doc_params f)) \<and>
   set (map fst (get_info f)) = arg_name ` set (doc_params f) \<and>
   (\<forall>k entry. map_of (get_info f) k = Some entry \<longrightarrow>
      map_of entry ''default'' =
        Some (case map_of (parameters f) k of Some (Some v) \<Rightarrow> v | _ \<Rightarrow> PNone) \<and>
      (\<exists>p\<in>set (doc_params f). arg_name p = k \<and>
         map_of entry ''help'' = Some (PStr (description p)))) \<and>
   (\<forall>k. k \<notin> arg_name ` set (doc_params f) \<longrightarrow> map_of (get_info f) k = None)"
proof (intro conjI allI impI)
  assume d: "distinct (map fst (parameters f))"
  show "length (get_info f) = card (arg_name ` set (doc_params f))"
    by (rule get_info_length)
  show "set (map fst (get_info f)) = arg_name ` set (doc_params f)"
    by (rule get_info_keys)
  show "map_of (get_info f) k = None" if "k \<notin> arg_name ` set (doc_params f)" for k
    using that get_info_keys [of f] by (simp add: map_of_eq_None_iff)
  fix k entry
  assume e: "map_of (get_info f) k = Some entry"
  from get_info_lookup [OF e] obtain p where p: "p \<in> set (doc_params f)" "arg_name p = k"
    "entry = [(''help'', PStr (description p)), (''default'', dict_get (get_default_args f) k)]"
    by blast
  from p(3) show "map_of entry ''default'' =
      Some (case map_of (parameters f) k of Some (Some v) \<Rightarrow> v | _ \<Rightarrow> PNone)"
    by (simp add: declared_default [OF d])
  from p show "\<exists>p\<in>set (doc_params f). arg_name p = k \<and>
      map_of entry ''help'' = Some (PStr (description p))"
    by auto
qed

text \<open>
  The theorem at a function of two parameters, of which only \<^verbatim>\<open>timeout\<close> is documented:
  one entry, and none for \<^verbatim>\<open>url\<close>.
\<close>

theorem get_info_entries_witness:
  "distinct (map fst (parameters
      \<lparr>parameters = [(''url'', None), (''timeout'', Some (PInt 5))],
       doc_params = [\<lparr>arg_name = ''timeout'', description = ''Stop after this long''\<rparr>]\<rparr>)) \<and>
   length (get_info
      \<lparr>parameters = [(''url'', None), (''timeout'', Some (PInt 5))],
       doc_params = [\<lparr>arg_name = ''timeout'', description = ''Stop after this long''\<rparr>]\<rparr>) = 1 \<and>
   map_of (get_info
      \<lparr>parameters = [(''url'', None), (''timeout'', Some (PInt 5))],
       doc_params = [\<lparr>arg_name = ''timeout'', description = ''Stop after this long''\<rparr>]\<rparr>)
     ''url'' = None"
  using get_info_entries
    [of "\<lparr>parameters = [(''url'', None), (''timeout'', Some (PInt 5))],
         doc_params = [\<lparr>arg_name = ''timeout'', description = ''Stop after this long''\<rparr>]\<rparr>"]
  by simp

text \<open>
  Claim C2 as stated fails: a function with the two parameters \<^verbatim>\<open>url\<close> and \<^verbatim>\<open>timeout\<close>, of
  which only \<^verbatim>\<open>url\<close> is documented, gets one entry, not two.
\<close>

theorem get_info_entry_count_counterexample:
  "length (get_info
      \<lparr>parameters = [(''url'', None), (''timeout'', Some (PInt 5))],
       doc_params = [\<lparr>arg_name = ''url'', description = ''The URL''\<rparr>]\<rparr>)
   \<noteq> length (parameters
      \<lparr>parameters = [(''url'', None), (''timeout'', Some (PInt 5))],
       doc_params = [\<lparr>arg_name = ''url'', description = ''The URL''\<rparr>]\<rparr>)"
  by (simp add: get_info_def get_default_args_def dict_get_def)

text \<open>
  Claim C3, as the code has it. \<^verbatim>\<open>args.get(param.arg_name)\<close> does not raise on a missing
  key: a documented parameter for which the signature declares no default gets an entry
  whose default is \<^verbatim>\<open>None\<close>, and \<^verbatim>\<open>get_info\<close> signals nothing.
\<close>

theorem get_info_documented_without_default:
  "p \<in> set (doc_params f) \<Longrightarrow> map_of (get_default_args f) (arg_name p) = None \<Longrightarrow>
   \<exists>entry. map_of (get_info f) (arg_name p) = Some entry \<and>
           map_of entry ''default'' = Some PNone"
proof -
  assume p: "p \<in> set (doc_params f)" and n: "map_of (get_default_args f) (arg_name p) = None"
  from p have "arg_name p \<in> set (map fst (get_info f))"
    by (simp only: get_info_keys) simp
  then obtain entry where e: "map_of (get_info f) (arg_name p) = Some entry"
    by (metis map_of_eq_None_iff not_None_eq set_map)
  from get_info_lookup [OF e] n have "map_of entry ''default'' = Some PNone"
    by (auto simp: dict_get_def)
  with e show ?thesis by blast
qed

theorem get_info_documented_without_default_witness:
  "\<lparr>arg_name = ''url'', description = ''The URL''\<rparr>
     \<in> set (doc_params \<lparr>parameters = [(''url'', None)],
                         doc_params = [\<lparr>arg_name = ''url'', description = ''The URL''\<rparr>]\<rparr>) \<and>
   map_of (get_default_args \<lparr>parameters = [(''url'', None)],
                         doc_params = [\<lparr>arg_name = ''url'', description = ''The URL''\<rparr>]\<rparr>)
     (arg_name \<lparr>arg_name = ''url'', description = ''The URL''\<rparr>) = None \<and>
   (\<exists>entry. map_of (get_info \<lparr>parameters = [(''url'', None)],
                         doc_params = [\<lparr>arg_name = ''url'', description = ''The URL''\<rparr>]\<rparr>)
       (arg_name \<lparr>arg_name = ''url'', description = ''The URL''\<rparr>) = Some entry \<and>
     map_of entry ''default'' = Some PNone)"
  using get_info_documented_without_default
    [of "\<lparr>arg_name = ''url'', description = ''The URL''\<rparr>"
        "\<lparr>parameters = [(''url'', None)],
          doc_params = [\<lparr>arg_name = ''url'', description = ''The URL''\<rparr>]\<rparr>"]
  by (simp add: get_default_args_def)

text \<open>
  Claim C3 as stated fails: for the documented parameter \<^verbatim>\<open>url\<close>, which has no default in
  the signature, \<^verbatim>\<open>get_info\<close> returns normally, with an entry whose default is \<^verbatim>\<open>None\<close>.
\<close>

theorem get_info_silent_none_counterexample:
  "get_info \<lparr>parameters = [(''url'', None)],
             doc_params = [\<lparr>arg_name = ''url'', description = ''The URL''\<rparr>]\<rparr>
   = [(''url'', [(''help'', PStr ''The URL''), (''default'', PNone)])]"
  by (simp add: get_info_def get_default_args_def dict_get_def)

section \<open>Properties of mode resolution\<close>

text \<open>
  Claim C5. Mode resolution applies every rule that matches, for every namespace and
  logger: with \<^verbatim>\<open>testing\<close> set, \<^verbatim>\<open>args.logging\<close> becomes \<^verbatim>\<open>'debug'\<close> and \<^verbatim>\<open>args.pause_on_debug\<close>
  becomes \<^verbatim>\<open>True\<close>; with \<^verbatim>\<open>verbose\<close> set, \<^verbatim>\<open>args.logging\<close> becomes \<^verbatim>\<open>'debug'\<close>; with \<^verbatim>\<open>quiet\<close>
  set, the logger is disabled whatever the level; and where \<^verbatim>\<open>testing\<close> or \<^verbatim>\<open>verbose\<close> is
  set without \<^verbatim>\<open>quiet\<close>, the logger's level is set to \<^verbatim>\<open>'debug'\<close>.
\<close>

theorem resolve_mode_applies_every_rule:
  "(truthy (testing a) \<longrightarrow>
      logging (fst (resolve_mode (a, lg))) = PStr ''debug'' \<and>
      pause_on_debug (fst (resolve_mode (a, lg))) = PBool True) \<and>
   (truthy (verbose a) \<longrightarrow> logging (fst (resolve_mode (a, lg))) = PStr ''debug'') \<and>
   (truthy (quiet a) \<longrightarrow> disabled (snd (resolve_mode (a, lg)))) \<and>
   ((truthy (testing a) \<or> truthy (verbose a)) \<and> \<not> truthy (quiet a) \<longrightarrow>
      level (snd (resolve_mode (a, lg))) = PStr ''debug'')"
  by (simp add: resolve_mode_def set_log_level_def Let_def)

text \<open>All three flags at once: every rule has been applied.\<close>

theorem resolve_mode_applies_every_rule_witness:
  "truthy (testing \<lparr>testing = PBool True, verbose = PBool True, quiet = PBool True,
       logging = PStr ''warning'', pause_on_debug = PBool False, output = PNone,
       indent = PInt 4, sort_keys = PBool True, overwrite = PBool False,
       others = (\<lambda>k. PNone)\<rparr>) \<and>
   resolve_mode (\<lparr>testing = PBool True, verbose = PBool True, quiet = PBool True,
       logging = PStr ''warning'', pause_on_debug = PBool False, output = PNone,
       indent = PInt 4, sort_keys = PBool True, overwrite = PBool False,
       others = (\<lambda>k. PNone)\<rparr>, \<lparr>disabled = False, level = PStr ''info''\<rparr>) =
     (\<lparr>testing = PBool True, verbose = PBool True, quiet = PBool True,
       logging = PStr ''debug'', pause_on_debug = PBool True, output = PNone,
       indent = PInt 4, sort_keys = PBool True, overwrite = PBool False,
       others = (\<lambda>k. PNone)\<rparr>, \<lparr>disabled = True, level = PStr ''info''\<rparr>)"
  using resolve_mode_applies_every_rule
    [of "\<lparr>testing = PBool True, verbose = PBool True, quiet = PBool True,
       logging = PStr ''warning'', pause_on_debug = PBool False, output = PNone,
       indent = PInt 4, sort_keys = PBool True, overwrite = PBool False,
       others = (\<lambda>k. PNone)\<rparr>" "\<lparr>disabled = False, level = PStr ''info''\<rparr>"]
  by (simp add: resolve_mode_def set_log_level_def Let_def)

text \<open>
  Claim C6. Mode resolution has no failing branch: it is defined on every namespace and
  logger, whatever the flags. Resolving its own result again changes nothing; and the
  result is a valid mode whenever the input is one: a logging level that is one of the six
  choices stays one of them, and a boolean \<^verbatim>\<open>pause_on_debug\<close> stays boolean.
\<close>

theorem resolve_mode_total_idempotent:
  "resolve_mode (resolve_mode s) = resolve_mode s \<and>
   (logging (fst s) \<in> PStr ` set logging_choices \<longrightarrow>
      logging (fst (resolve_mode s)) \<in> PStr ` set logging_choices) \<and>
   (pause_on_debug (fst s) \<in> range PBool \<longrightarrow>
      pause_on_debug (fst (resolve_mode s)) \<in> range PBool)"
  by (cases s) (auto simp: resolve_mode_def set_log_level_def Let_def logging_choices_def)

theorem resolve_mode_total_idempotent_witness:
  "logging (fst (example_args (PBool False) PNone, \<lparr>disabled = False, level = PNone\<rparr>)) =
     PStr ''info'' \<and>
   pause_on_debug (fst (example_args (PBool False) PNone, \<lparr>disabled = False, level = PNone\<rparr>)) =
     PBool False \<and>
   resolve_mode (example_args (PBool False) PNone, \<lparr>disabled = False, level = PNone\<rparr>) =
     (example_args (PBool False) PNone, \<lparr>disabled = False, level = PStr ''info''\<rparr>) \<and>
   resolve_mode
     (resolve_mode (example_args (PBool False) PNone, \<lparr>disabled = False, level = PNone\<rparr>)) =
     (example_args (PBool False) PNone, \<lparr>disabled = False, level = PStr ''info''\<rparr>)"
  using resolve_mode_total_idempotent
    [of "(example_args (PBool False) PNone, \<lparr>disabled = False, level = PNone\<rparr>)"]
  by (simp add: resolve_mode_def set_log_level_def example_args_def)

section \<open>Properties of the dispatch\<close>

lemma for_messages_no_event:
  "(\<And>m. ev \<notin> set (callback m)) \<Longrightarrow> (\<And>m. ev \<noteq> Next m) \<Longrightarrow>
   ev \<notin> set (for_messages callback ms)"
  by (induction ms) auto

lemma for_messages_filter_empty:
  "(\<And>m. filter P (callback m) = []) \<Longrightarrow> (\<And>m. \<not> P (Next m)) \<Longrightarrow>
   filter P (for_messages callback ms) = []"
  by (induction ms) auto

lemma for_messages_concat:
  "for_messages callback ms = concat (map (\<lambda>m. Next m # callback m) ms)"
  by (induction ms) auto

text \<open>A clause that handles an exception logs one line and does nothing else.\<close>

lemma handle_logs_only:
  "handle except_clauses e = Some logged \<Longrightarrow> \<exists>l m. logged = [Log l m]"
  by (auto simp: except_clauses_def split: if_splits)

lemma count_for_messages [simp]:
  "count_list (for_messages (print_formatted a chat) ms) DownloaderClose = 0"
  "count_list (for_messages (print_formatted a chat) ms) SinkClose = 0"
  "count_list (for_messages (write_to_file a chat) ms) DownloaderClose = 0"
  "count_list (for_messages (write_to_file a chat) ms) SinkClose = 0"
  by (simp_all add: count_list_0_iff for_messages_no_event print_formatted_def
        write_to_file_def)

lemma open_for_messages [simp]:
  "filter (\<lambda>ev. case ev of SinkOpen p kw \<Rightarrow> True | _ \<Rightarrow> False)
     (for_messages (print_formatted a chat) ms) = []"
  "filter (\<lambda>ev. case ev of SinkOpen p kw \<Rightarrow> True | _ \<Rightarrow> False)
     (for_messages (write_to_file a chat) ms) = []"
  by (simp_all add: for_messages_filter_empty print_formatted_def write_to_file_def)

text \<open>
  Claim C7. However the \<^verbatim>\<open>try\<close> statement is left (the messages exhausted, an exception
  that a clause handles, one that none handles, or \<^verbatim>\<open>KeyboardInterrupt\<close>; raised by
  \<^verbatim>\<open>get_chat\<close>, by the writer's constructor or by the iteration), its events hold exactly one
  \<^verbatim>\<open>downloader.close()\<close>, and as many \<^verbatim>\<open>output_file.close()\<close> as writers were opened, which is
  at most one.
\<close>

theorem cleanup_runs_exactly_once:
  "count_list (snd (dispatch a chat_params eng)) DownloaderClose = 1 \<and>
   count_list (snd (dispatch a chat_params eng)) SinkClose =
     length (filter (\<lambda>ev. case ev of SinkOpen p kw \<Rightarrow> True | _ \<Rightarrow> False)
               (snd (dispatch a chat_params eng))) \<and>
   count_list (snd (dispatch a chat_params eng)) SinkClose \<le> 1"
  by (auto simp: dispatch_def try_body_def consume_def finally_block_def Let_def
           split: sum.splits option.splits prod.splits dest!: handle_logs_only)

text \<open>A run with an output file that is interrupted after its second message.\<close>

theorem cleanup_runs_exactly_once_witness:
  "dispatch (example_args (PBool False) (PStr ''out.json'')) []
      (example_engine (Inr (example_chat (Some (Exn KeyboardInterrupt []))))) =
     (Returned,
      [Log ''debug'' (Format chat_information_template [FChatDict]),
       Log ''info'' (Format retrieving_template [FStr ''stream'']),
       SinkOpen (PStr ''out.json'')
         [(''indent'', PInt 4), (''sort_keys'', PBool True), (''overwrite'', PBool False)],
       Next ''hello'', Print ''> hello'', SinkWrite ''hello'' True,
       Next ''bye'', Print ''> bye'', SinkWrite ''bye'' True,
       Log ''error'' (Text ''Keyboard Interrupt''),
       DownloaderClose, SinkClose]) \<and>
   count_list (snd (dispatch (example_args (PBool False) (PStr ''out.json'')) []
      (example_engine (Inr (example_chat (Some (Exn KeyboardInterrupt []))))))) DownloaderClose
     = 1 \<and>
   count_list (snd (dispatch (example_args (PBool False) (PStr ''out.json'')) []
      (example_engine (Inr (example_chat (Some (Exn KeyboardInterrupt []))))))) SinkClose
     = 1"
  using cleanup_runs_exactly_once
    [of "example_args (PBool False) (PStr ''out.json'')" "[]"
        "example_engine (Inr (example_chat (Some (Exn KeyboardInterrupt []))))"]
  by (simp add: dispatch_def try_body_def consume_def finally_block_def example_args_def
        example_chat_def example_engine_def output_args_def getattr_args_def
        write_to_file_def print_formatted_def except_clauses_def isinstance_def)

text \<open>The \<^verbatim>\<open>except\<close> clauses as a table over the class of the exception.\<close>

lemma handle_classified:
  "handle except_clauses e =
     (if exn_class e \<in> {URLNotProvided, SiteNotSupported, LoginRequired, VideoUnavailable,
          NoChatReplay, VideoUnplayable, InvalidParameter, InvalidURL, RetriesExceeded}
      then Some [Log ''error'' (Obj e)]
      else if exn_class e = NoContinuation \<or> exn_class e = TimeoutException
      then Some [Log ''info'' (Obj e)]
      else if exn_class e = ConnectionError
      then Some [Log ''error'' (Format connection_template [FExn e])]
      else if exn_class e = RequestException
      then Some [Log ''error'' (Obj e)]
      else if exn_class e = KeyboardInterrupt
      then Some [Log ''error'' (Text ''Keyboard Interrupt'')]
      else None)"
  by (cases "exn_class e") (simp_all add: except_clauses_def isinstance_def)

text \<open>
  Claim C8. When the \<^verbatim>\<open>try\<close> block raises \<open>e\<close>: each of the nine acquisition failures is
  logged at \<^verbatim>\<open>error\<close>; \<^verbatim>\<open>NoContinuation\<close> and \<^verbatim>\<open>TimeoutException\<close> are logged at \<^verbatim>\<open>info\<close>; a
  \<^verbatim>\<open>ConnectionError\<close> is logged at \<^verbatim>\<open>error\<close> with the connectivity message; any other
  \<^verbatim>\<open>RequestException\<close> is logged at \<^verbatim>\<open>error\<close>; \<^verbatim>\<open>KeyboardInterrupt\<close> logs
  \<^verbatim>\<open>'Keyboard Interrupt'\<close> at \<^verbatim>\<open>error\<close>; in each of these cases the statement returns
  normally, after the cleanup. An exception of any other class is logged by no clause
  and leaves the statement, after the cleanup.
\<close>

theorem error_classifier:
  "try_body a chat_params eng = (Some e, output_file, evs) \<Longrightarrow>
   dispatch a chat_params eng =
     (if exn_class e \<in> {URLNotProvided, SiteNotSupported, LoginRequired, VideoUnavailable,
          NoChatReplay, VideoUnplayable, InvalidParameter, InvalidURL, RetriesExceeded}
      then (Returned, evs @ [Log ''error'' (Obj e)] @ finally_block a output_file)
      else if exn_class e = NoContinuation \<or> exn_class e = TimeoutException
      then (Returned, evs @ [Log ''info'' (Obj e)] @ finally_block a output_file)
      else if exn_class e = ConnectionError
      then (Returned, evs @ [Log ''error'' (Format connection_template [FExn e])] @
              finally_block a output_file)
      else if exn_class e = RequestException
      then (Returned, evs @ [Log ''error'' (Obj e)] @ finally_block a output_file)
      else if exn_class e = KeyboardInterrupt
      then (Returned, evs @ [Log ''error'' (Text ''Keyboard Interrupt'')] @
              finally_block a output_file)
      else (Propagated e, evs @ finally_block a output_file))"
  by (simp add: dispatch_def handle_classified)

text \<open>A quiet run whose connection breaks after the second message.\<close>

theorem error_classifier_witness:
  "try_body (example_args (PBool True) PNone) []
      (example_engine (Inr (example_chat (Some (Exn ConnectionError ''refused''))))) =
     (Some (Exn ConnectionError ''refused''), False,
      [Log ''debug'' (Format chat_information_template [FChatDict]),
       Log ''info'' (Format retrieving_template [FStr ''stream'']),
       Next ''hello'', Next ''bye'']) \<and>
   dispatch (example_args (PBool True) PNone) []
      (example_engine (Inr (example_chat (Some (Exn ConnectionError ''refused''))))) =
     (Returned,
      [Log ''debug'' (Format chat_information_template [FChatDict]),
       Log ''info'' (Format retrieving_template [FStr ''stream'']),
       Next ''hello'', Next ''bye'',
       Log ''error'' (Format connection_template [FExn (Exn ConnectionError ''refused'')]),
       DownloaderClose])"
proof -
  have t: "try_body (example_args (PBool True) PNone) []
      (example_engine (Inr (example_chat (Some (Exn ConnectionError ''refused''))))) =
     (Some (Exn ConnectionError ''refused''), False,
      [Log ''debug'' (Format chat_information_template [FChatDict]),
       Log ''info'' (Format retrieving_template [FStr ''stream'']),
       Next ''hello'', Next ''bye''])"
    by (simp add: try_body_def consume_def example_args_def example_chat_def
          example_engine_def print_formatted_def)
  show ?thesis
    using t error_classifier [OF t] by (simp add: finally_block_def example_args_def)
qed

text \<open>
  Claim C9. When the session was acquired and, if an output file was asked for, its writer
  was opened: the events of taking a message, printing and writing are, message by message
  in the order of the session, the message taken, then its formatted text printed unless
  \<^verbatim>\<open>quiet\<close> is set, then the message written with \<^verbatim>\<open>flush=True\<close> if \<^verbatim>\<open>args.output\<close> is set; so
  both are done for a message before the next one is taken, and \<^verbatim>\<open>quiet\<close> leaves out the
  print only.
\<close>

theorem messages_dispatched_in_order:
  "get_chat eng chat_params = Inr chat \<Longrightarrow>
   (truthy (output a) \<longrightarrow> open_writer eng (output a) (output_args a) = None) \<Longrightarrow>
   filter (\<lambda>ev. case ev of Next m \<Rightarrow> True | Print s \<Rightarrow> True | SinkWrite m fl \<Rightarrow> True
                 | _ \<Rightarrow> False)
     (snd (dispatch a chat_params eng)) =
   concat (map (\<lambda>m. Next m #
                  (if \<not> truthy (quiet a) then [Print (chat_format chat m)] else []) @
                  (if truthy (output a) then [SinkWrite m True] else []))
             (chat_messages chat))"
  by (auto simp: dispatch_def try_body_def consume_def finally_block_def Let_def
        for_messages_concat print_formatted_def write_to_file_def filter_concat comp_def
           split: sum.splits option.splits prod.splits dest!: handle_logs_only
           intro!: arg_cong [where f = concat])

text \<open>A quiet run with an output file: nothing is printed, every message is written.\<close>

theorem messages_dispatched_in_order_witness:
  "get_chat (example_engine (Inr (example_chat None))) [] = Inr (example_chat None) \<and>
   truthy (output (example_args (PBool True) (PStr ''out.json''))) \<and>
   open_writer (example_engine (Inr (example_chat None)))
     (output (example_args (PBool True) (PStr ''out.json'')))
     (output_args (example_args (PBool True) (PStr ''out.json''))) = None \<and>
   filter (\<lambda>ev. case ev of Next m \<Rightarrow> True | Print s \<Rightarrow> True | SinkWrite m fl \<Rightarrow> True
                 | _ \<Rightarrow> False)
     (snd (dispatch (example_args (PBool True) (PStr ''out.json'')) []
            (example_engine (Inr (example_chat None))))) =
     [Next ''hello'', SinkWrite ''hello'' True, Next ''bye'', SinkWrite ''bye'' True]"
proof -
  have g: "get_chat (example_engine (Inr (example_chat None))) [] = Inr (example_chat None)"
    by (simp add: example_engine_def)
  have w: "truthy (output (example_args (PBool True) (PStr ''out.json''))) \<longrightarrow>
     open_writer (example_engine (Inr (example_chat None)))
       (output (example_args (PBool True) (PStr ''out.json'')))
       (output_args (example_args (PBool True) (PStr ''out.json''))) = None"
    by (simp add: example_engine_def)
  show ?thesis
    using g messages_dispatched_in_order [OF g w]
    by (simp add: example_engine_def example_args_def example_chat_def)
qed

section \<open>Properties of the flag synthesizer\<close>







text \<open>A registration that succeeds appends exactly the argument given.\<close>

lemma add_argument_shape:
  "add_argument grp keys kw = Inr p' \<Longrightarrow>
   p' = grp @ [\<lparr>option_strings = keys, arg_kwargs = kw\<rparr>]"
  unfolding add_argument_def Let_def
  by (simp split: if_splits option.splits)






text \<open>
  A further keyword that a \<^verbatim>\<open>store_true\<close> action does not take makes the same registration
  fail: with \<^verbatim>\<open>type=int\<close> the library raises \<^verbatim>\<open>TypeError\<close>.
\<close>

lemma boolean_flag_with_type_raises:
  "add_param [(''pause_on_debug'', [(''help'', PStr ''Pause on debug''), (''default'', PNone)])]
       [] ''chat'' [] [''--pause_on_debug'']
       [(''is_boolean_flag'', PBool True), (''type'', PFun ''int'')] =
     Inl (Exn (Other ''TypeError'') ''__init__() got an unexpected keyword argument'')"
  by code_simp



text \<open>
  Claim C4 fails on the code. The comment in \<^verbatim>\<open>add_param\<close> reads "If True by default, set
  action to store_false", but the default that line 79 reads is the \<^verbatim>\<open>default\<close> keyword of
  the call, never the introspected one. The same call for a \<^verbatim>\<open>pause_on_debug\<close> whose
  introspected default is \<^verbatim>\<open>True\<close> registers the action \<^verbatim>\<open>store_true\<close> with the default
  \<^verbatim>\<open>True\<close>: the parser stores \<^verbatim>\<open>True\<close> whether the flag occurs or not.
\<close>

theorem boolean_flag_default_true_stores_true:
  "add_param
       (get_info \<lparr>parameters = [(''pause_on_debug'', Some (PBool True))],
                  doc_params = [\<lparr>arg_name = ''pause_on_debug'',
                                  description = ''Pause on debug''\<rparr>]\<rparr>)
       [] ''chat'' [] [''--pause_on_debug''] [(''is_boolean_flag'', PBool True)] =
     Inr [\<lparr>option_strings = [''--pause_on_debug''],
           arg_kwargs = [(''help'', PStr ''Pause on debug''), (''default'', PBool True),
                         (''action'', PStr ''store_true'')]\<rparr>] \<and>
   parsed_value \<lparr>option_strings = [''--pause_on_debug''],
           arg_kwargs = [(''help'', PStr ''Pause on debug''), (''default'', PBool True),
                         (''action'', PStr ''store_true'')]\<rparr> [(''pause_on_debug'', PNone)]
     = PBool True \<and>
   parsed_value \<lparr>option_strings = [''--pause_on_debug''],
           arg_kwargs = [(''help'', PStr ''Pause on debug''), (''default'', PBool True),
                         (''action'', PStr ''store_true'')]\<rparr> []
     = PBool True"
  by code_simp

section \<open>Properties of the command-line surface\<close>

text \<open>
  A registration that succeeds appends one argument with the option strings of the call;
  a direct \<^verbatim>\<open>add_argument\<close> appends exactly the argument given.
\<close>

lemma add_param_shape:
  "add_param ci ii pt p keys kw = Inr p' \<Longrightarrow> \<exists>a. p' = p @ [a] \<and> option_strings a = keys"
  by (auto simp: add_param_def Let_def dest!: add_argument_shape
           split: prod.splits list.splits option.splits if_splits)

lemma register_shape:
  "register ci ii p r = Inr p' \<Longrightarrow>
   \<exists>a. p' = p @ [a] \<and>
     (case r of Direct ks kw \<Rightarrow> a = \<lparr>option_strings = ks, arg_kwargs = kw\<rparr>
      | Chat ks kw \<Rightarrow> option_strings a = ks
      | Init ks kw \<Rightarrow> option_strings a = ks)"
  by (cases r) (auto simp: add_chat_param_def add_init_param_def
                     dest: add_param_shape add_argument_shape)

lemma register_all_shape:
  "register_all ci ii p rs = Inr p' \<Longrightarrow>
   \<exists>as. p' = p @ as \<and>
     list_all2 (\<lambda>a r. case r of Direct ks kw \<Rightarrow> a = \<lparr>option_strings = ks, arg_kwargs = kw\<rparr>
                      | Chat ks kw \<Rightarrow> option_strings a = ks
                      | Init ks kw \<Rightarrow> option_strings a = ks) as rs"
proof (induction rs arbitrary: p)
  case Nil
  then show ?case by simp
next
  case (Cons r rs)
  from Cons.prems obtain p1 where r: "register ci ii p r = Inr p1"
    and rest: "register_all ci ii p1 rs = Inr p'"
    by (auto split: sum.splits)
  from register_shape [OF r] obtain a where a: "p1 = p @ [a]"
    "(case r of Direct ks kw \<Rightarrow> a = \<lparr>option_strings = ks, arg_kwargs = kw\<rparr>
      | Chat ks kw \<Rightarrow> option_strings a = ks
      | Init ks kw \<Rightarrow> option_strings a = ks)"
    by blast
  from Cons.IH [OF rest] obtain as where as: "p' = p1 @ as"
    "list_all2 (\<lambda>a r. case r of Direct ks kw \<Rightarrow> a = \<lparr>option_strings = ks, arg_kwargs = kw\<rparr>
                      | Chat ks kw \<Rightarrow> option_strings a = ks
                      | Init ks kw \<Rightarrow> option_strings a = ks) as rs"
    by blast
  from a as show ?case
    by (intro exI [of _ "a # as"]) simp
qed

lemma shape_keys:
  "list_all2 (\<lambda>a r. case r of Direct ks kw \<Rightarrow> a = \<lparr>option_strings = ks, arg_kwargs = kw\<rparr>
                      | Chat ks kw \<Rightarrow> option_strings a = ks
                      | Init ks kw \<Rightarrow> option_strings a = ks) as rs \<Longrightarrow>
   map option_strings as =
     map (\<lambda>r. case r of Direct ks kw \<Rightarrow> ks | Chat ks kw \<Rightarrow> ks | Init ks kw \<Rightarrow> ks) rs"
  by (induction rule: list_all2_induct) (auto split: registration.splits)

lemma find_append_none:
  "\<forall>x\<in>set xs. \<not> P x \<Longrightarrow> find P (xs @ ys) = find P ys"
  by (induction xs) auto

text \<open>
  In every parser that \<^verbatim>\<open>main\<close> builds, the argument with the destination \<^verbatim>\<open>sort_keys\<close> is
  the one of line 157: the seventeen registrations before it have other destinations.
\<close>

lemma main_parser_sort_keys:
  assumes "register_all ci ii [] (main_registrations v) = Inr parser"
  shows "find (\<lambda>a. dest_of (option_strings a) = ''sort_keys'') parser =
           Some \<lparr>option_strings = [''--sort_keys''],
                 arg_kwargs = [(''help'', PStr sort_keys_help),
                               (''action'', PStr ''store_false'')]\<rparr>"
proof -
  let ?R = "\<lambda>a r. case r of Direct ks kw \<Rightarrow> a = \<lparr>option_strings = ks, arg_kwargs = kw\<rparr>
                      | Chat ks kw \<Rightarrow> option_strings a = ks
                      | Init ks kw \<Rightarrow> option_strings a = ks"
  let ?P = "\<lambda>a. dest_of (option_strings a) = ''sort_keys''"
  from register_all_shape [OF assms]
  have shape: "list_all2 ?R parser (main_registrations v)" by simp
  then have len: "length parser = 28"
    by (simp add: list_all2_lengthD main_registrations_def)
  have "?R (parser ! 17) (main_registrations v ! 17)"
    using list_all2_nthD [OF shape, of 17] len by simp
  then have at: "parser ! 17 = \<lparr>option_strings = [''--sort_keys''],
      arg_kwargs = [(''help'', PStr sort_keys_help), (''action'', PStr ''store_false'')]\<rparr>"
    by (simp add: main_registrations_def)
  have "map option_strings (take 17 parser) = take 17 (map option_strings parser)"
    by (simp add: take_map)
  also have "\<dots> = take 17 (map (\<lambda>r. case r of Direct ks kw \<Rightarrow> ks | Chat ks kw \<Rightarrow> ks
                                   | Init ks kw \<Rightarrow> ks) (main_registrations v))"
    by (simp only: shape_keys [OF shape])
  finally have "map dest_of (map option_strings (take 17 parser)) =
      [''version'', ''url'', ''start_time'', ''end_time'', ''message_types'', ''message_groups'',
       ''max_attempts'', ''retry_timeout'', ''max_messages'', ''inactivity_timeout'',
       ''timeout'', ''format'', ''format_file'', ''chat_type'', ''message_receive_timeout'',
       ''buffer_size'', ''output'']"
    by (simp add: main_registrations_def dest_of_def lstrip_dash_def)
  then have "''sort_keys'' \<notin> set (map dest_of (map option_strings (take 17 parser)))"
    by (simp only:) simp
  then have before: "\<forall>a\<in>set (take 17 parser). \<not> ?P a"
    by (metis (no_types, lifting) image_eqI list.set_map)
  have "parser = take 17 parser @ parser ! 17 # drop 18 parser"
    using len id_take_nth_drop [of 17 parser] by simp
  then have "find ?P parser = find ?P (take 17 parser @ parser ! 17 # drop 18 parser)"
    by simp
  also have "\<dots> = find ?P (parser ! 17 # drop 18 parser)"
    using before by (rule find_append_none)
  also have "\<dots> = Some (parser ! 17)"
    by (simp add: at dest_of_def lstrip_dash_def)
  finally show ?thesis by (simp only: at)
qed

text \<open>
  Claim C1 fails on the code. The help of \<^verbatim>\<open>--sort_keys\<close> reads "Sort keys when outputting
  to a file", but the flag is registered with \<^verbatim>\<open>action='store_false'\<close>: whenever \<^verbatim>\<open>main\<close> has
  built its parser, the \<^verbatim>\<open>sort_keys\<close> that reaches the writer is \<^verbatim>\<open>True\<close> exactly when the
  flag does not occur on the command line.
\<close>

theorem sort_keys_inverted:
  "register_all get_chat_info get_init_info [] (main_registrations version) = Inr parser \<Longrightarrow>
   map_of (output_args (fst (resolve_mode (parse_args parser cl, lg)))) ''sort_keys'' =
     Some (PBool (map_of cl ''sort_keys'' = None))"
proof -
  assume built:
    "register_all get_chat_info get_init_info [] (main_registrations version) = Inr parser"
  have "sort_keys (fst (resolve_mode (parse_args parser cl, lg))) =
          sort_keys (parse_args parser cl)"
    by (simp add: resolve_mode_def Let_def)
  also have "\<dots> = namespace_attr parser cl ''sort_keys''"
    by (simp add: parse_args_def)
  also have "\<dots> = parsed_value \<lparr>option_strings = [''--sort_keys''],
      arg_kwargs = [(''help'', PStr sort_keys_help), (''action'', PStr ''store_false'')]\<rparr> cl"
    by (simp only: namespace_attr_def main_parser_sort_keys [OF built] option.case)
  also have "\<dots> = PBool (map_of cl ''sort_keys'' = None)"
    by (simp add: parsed_value_def arg_default_def action_of_def dest_of_def lstrip_dash_def
             split: option.splits)
  finally show ?thesis
    by (simp add: output_args_def getattr_args_def)
qed

text \<open>
  The command line \<^verbatim>\<open>https://example.org/v --output out.json --sort_keys\<close>: the writer is
  opened with \<^verbatim>\<open>sort_keys=False\<close>.
\<close>

theorem sort_keys_inverted_witness:
  "\<not> isl (register_all (get_info example_get_chat) (get_info example_init) []
            (main_registrations ''0.0.1'')) \<and>
   map_of (output_args (fst (resolve_mode
      (parse_args
         (projr (register_all (get_info example_get_chat) (get_info example_init) []
                   (main_registrations ''0.0.1'')))
         [(''url'', PStr ''https://example.org/v''), (''output'', PStr ''out.json''),
          (''sort_keys'', PNone)],
       \<lparr>disabled = False, level = PNone\<rparr>)))) ''sort_keys'' = Some (PBool False) \<and>
   main example_get_chat example_init
     [(''url'', PStr ''https://example.org/v''), (''output'', PStr ''out.json''),
      (''sort_keys'', PNone)]
     \<lparr>disabled = False, level = PNone\<rparr> (example_engine (Inr (example_chat None))) =
     (Returned, \<lparr>disabled = False, level = PStr ''info''\<rparr>,
      [Log ''debug'' (Format ''Python version: {}'' [FStr ''3.8.5'']),
       Log ''debug'' (Format ''Program version: {}'' [FStr ''0.0.1'']),
       Log ''debug'' (Format ''Initialisation parameters: {}''
                       [FDict [(''cookies'', PNone), (''proxy'', PNone)]]),
       Log ''debug'' (Format chat_information_template [FChatDict]),
       Log ''info'' (Format retrieving_template [FStr ''stream'']),
       SinkOpen (PStr ''out.json'')
         [(''indent'', PInt 4), (''sort_keys'', PBool False), (''overwrite'', PBool False)],
       Next ''hello'', Print ''> hello'', SinkWrite ''hello'' True,
       Next ''bye'', Print ''> bye'', SinkWrite ''bye'' True,
       Log ''info'' (Format finished_template [FStr '' replay'']),
       DownloaderClose, SinkClose])"
proof -
  have built: "\<not> isl (register_all (get_info example_get_chat) (get_info example_init) []
            (main_registrations ''0.0.1''))"
    by code_simp
  then have "register_all (get_info example_get_chat) (get_info example_init) []
            (main_registrations ''0.0.1'') =
      Inr (projr (register_all (get_info example_get_chat) (get_info example_init) []
            (main_registrations ''0.0.1'')))"
    by (cases "register_all (get_info example_get_chat) (get_info example_init) []
            (main_registrations ''0.0.1'')") simp_all
  from sort_keys_inverted [OF this,
      of "[(''url'', PStr ''https://example.org/v''), (''output'', PStr ''out.json''),
           (''sort_keys'', PNone)]" "\<lparr>disabled = False, level = PNone\<rparr>"]
  have inv: "map_of (output_args (fst (resolve_mode
      (parse_args
         (projr (register_all (get_info example_get_chat) (get_info example_init) []
                   (main_registrations ''0.0.1'')))
         [(''url'', PStr ''https://example.org/v''), (''output'', PStr ''out.json''),
          (''sort_keys'', PNone)],
       \<lparr>disabled = False, level = PNone\<rparr>)))) ''sort_keys'' = Some (PBool False)"
    by simp
  have run: "main example_get_chat example_init
     [(''url'', PStr ''https://example.org/v''), (''output'', PStr ''out.json''),
      (''sort_keys'', PNone)]
     \<lparr>disabled = False, level = PNone\<rparr> (example_engine (Inr (example_chat None))) =
     (Returned, \<lparr>disabled = False, level = PStr ''info''\<rparr>,
      [Log ''debug'' (Format ''Python version: {}'' [FStr ''3.8.5'']),
       Log ''debug'' (Format ''Program version: {}'' [FStr ''0.0.1'']),
       Log ''debug'' (Format ''Initialisation parameters: {}''
                       [FDict [(''cookies'', PNone), (''proxy'', PNone)]]),
       Log ''debug'' (Format chat_information_template [FChatDict]),
       Log ''info'' (Format retrieving_template [FStr ''stream'']),
       SinkOpen (PStr ''out.json'')
         [(''indent'', PInt 4), (''sort_keys'', PBool False), (''overwrite'', PBool False)],
       Next ''hello'', Print ''> hello'', SinkWrite ''hello'' True,
       Next ''bye'', Print ''> bye'', SinkWrite ''bye'' True,
       Log ''info'' (Format finished_template [FStr '' replay'']),
       DownloaderClose, SinkClose])"
    by code_simp
  from built inv run show ?thesis by blast
qed

end
